theory Spec2Isabelle
  imports Main "HOL-Library.Word"
begin

section \<open>Bootstrap of the syncer: \<open>main.go\<close>\<close>

text \<open>
  The source is the process bootstrap: it reads flags and environment, builds the cluster
  clients, the certificate reloader and the ZMS client, parses three durations, hands
  everything to the controller and waits for a signal. Every collaborator outside
  \<open>main.go\<close> (the Go standard library, client-go, the Athenz client, the packages
  \<open>pkg/log\<close>, \<open>pkg/util\<close>, \<open>pkg/controller\<close>, \<open>pkg/reloader\<close>) is a field of
  an environment record or a record of the arguments it was called with.
\<close>

subsection \<open>Errors, log, panics\<close>

text \<open>A Go \<open>error\<close> is identified with its \<open>Error()\<close> text; \<open>%v\<close> prints that text.\<close>

type_synonym error = string

text \<open>
  Modelled from the spec: \<open>pkg/log\<close> is not among the source files. Section 7 says a
  fatal startup error aborts the process "with a logged cause": \<open>Panicf\<close> and
  \<open>Panicln\<close> append the message to the log and panic with it, \<open>Info\<close> appends a
  message, \<open>InitLogger\<close> is recorded with its two arguments.
\<close>

datatype log_entry = InitLogger string string | Info string | PanicEntry string

text \<open>The seven \<open>log.Panic\<close> call sites of \<open>main.go\<close>, in source order.\<close>

datatype panic_site =
    BuildConfigFailed
  | ClientsFailed
  | ReloaderFailed
  | ZMSClientFailed
  | UpdateCronInvalid
  | ResyncCronInvalid
  | QueueDelayInvalid

text \<open>A call either panics (unwinding \<open>main\<close>) or returns.\<close>

datatype 'a result = Panics panic_site string | Returns 'a

subsection \<open>Flags\<close>

text \<open>
  \<open>flag.String\<close> and \<open>flag.Bool\<close> return a pointer that holds the default until
  \<open>flag.Parse\<close> runs and the value given on the command line afterwards, if one was given.
  The command line is taken as \<open>flag.Parse\<close> accepted it: one optional value per
  registered flag.
\<close>

record 'a flag =
  dflt :: 'a
  given :: "'a option"

definition flag_var :: "'a option \<Rightarrow> 'a \<Rightarrow> 'a flag" where
  "flag_var supplied d = \<lparr>dflt = d, given = supplied\<rparr>"

definition deref_unparsed :: "'a flag \<Rightarrow> 'a" where
  "deref_unparsed f = dflt f"

definition deref :: "'a flag \<Rightarrow> 'a" where
  "deref f = (case given f of Some v \<Rightarrow> v | None \<Rightarrow> dflt f)"

record cmdline =
  arg_key :: "string option"
  arg_cert :: "string option"
  arg_zms_url :: "string option"
  arg_update_cron :: "string option"
  arg_resync_cron :: "string option"
  arg_queue_delay_interval :: "string option"
  arg_admin_domain :: "string option"
  arg_system_namespaces :: "string option"
  arg_disable_keep_alives :: "bool option"
  arg_log_location :: "string option"
  arg_log_mode :: "string option"
  arg_inClusterConfig :: "bool option"
  arg_kubeconfig :: "string option"

text \<open>Lines 98 to 108 and 113: the flags \<open>main\<close> registers, with their defaults.\<close>

definition key_flag :: "cmdline \<Rightarrow> string flag" where
  "key_flag cl = flag_var (arg_key cl) ''/var/run/athenz/service.key.pem''"

definition cert_flag :: "cmdline \<Rightarrow> string flag" where
  "cert_flag cl = flag_var (arg_cert cl) ''/var/run/athenz/service.cert.pem''"

definition zmsURL_flag :: "cmdline \<Rightarrow> string flag" where
  "zmsURL_flag cl = flag_var (arg_zms_url cl) []"

definition updateCron_flag :: "cmdline \<Rightarrow> string flag" where
  "updateCron_flag cl = flag_var (arg_update_cron cl) ''1m0s''"

definition resyncCron_flag :: "cmdline \<Rightarrow> string flag" where
  "resyncCron_flag cl = flag_var (arg_resync_cron cl) ''1h0m0s''"

definition queueDelayInterval_flag :: "cmdline \<Rightarrow> string flag" where
  "queueDelayInterval_flag cl = flag_var (arg_queue_delay_interval cl) ''250ms''"

definition adminDomain_flag :: "cmdline \<Rightarrow> string flag" where
  "adminDomain_flag cl = flag_var (arg_admin_domain cl) []"

definition systemNamespaces_flag :: "cmdline \<Rightarrow> string flag" where
  "systemNamespaces_flag cl = flag_var (arg_system_namespaces cl) []"

definition disableKeepAlives_flag :: "cmdline \<Rightarrow> bool flag" where
  "disableKeepAlives_flag cl = flag_var (arg_disable_keep_alives cl) True"

definition logLoc_flag :: "cmdline \<Rightarrow> string flag" where
  "logLoc_flag cl =
     flag_var (arg_log_location cl) ''/var/log/k8s-athenz-syncer/k8s-athenz-syncer.log''"

definition logMode_flag :: "cmdline \<Rightarrow> string flag" where
  "logMode_flag cl = flag_var (arg_log_mode cl) ''info''"

definition inClusterConfig_flag :: "cmdline \<Rightarrow> bool flag" where
  "inClusterConfig_flag cl = flag_var (arg_inClusterConfig cl) True"

subsection \<open>Channels, certificates, the reloader on the heap\<close>

text \<open>\<open>main\<close> makes two channels: \<open>stopCh\<close> (unbuffered) and \<open>sigTerm\<close> (capacity 1).\<close>

datatype chan = StopCh | SigTerm

datatype signal = SIGINT | SIGTERM

record ReloadConfig =
  KeyFile :: string
  CertFile :: string

text \<open>\<open>tls.Certificate\<close>: the certificate chain (DER) and the private key.\<close>

datatype Certificate = Certificate (chain: "string list") (PrivateKey: string)

text \<open>
  Modelled from the spec: \<open>pkg/reloader\<close> is not among the source files. The
  \<open>CertReloader\<close> holds the current credential bundle (a pointer, \<open>None\<close> is nil) and its
  configuration; \<open>GetLatestCertificate\<close> "is a pure read of the current bundle"
  (section 4.5).
\<close>

record CertReloader =
  current :: "Certificate option"
  reload_config :: ReloadConfig

definition GetLatestCertificate :: "CertReloader \<Rightarrow> Certificate option" where
  "GetLatestCertificate r = current r"

text \<open>
  \<open>main\<close> holds a \<open>*CertReloader\<close>: an address. The heap maps it to the reloader's
  state at the moment of the read.
\<close>

type_synonym addr = nat
type_synonym heap = "addr \<Rightarrow> CertReloader"

subsection \<open>The environment of \<open>main\<close>\<close>

record ('cfg, 'k8s, 'ath) env =
  Getenv :: "string \<Rightarrow> string"
  Args :: cmdline
  Join :: "string list \<Rightarrow> string"
  BuildConfigFromFlags :: "string \<Rightarrow> string \<Rightarrow> error + 'cfg"
  kubernetes_NewForConfig :: "'cfg \<Rightarrow> error + 'k8s"
  athenz_NewForConfig :: "'cfg \<Rightarrow> error + 'ath"
  NewCertReloader :: "ReloadConfig \<Rightarrow> chan \<Rightarrow> error + addr"
  ParseDuration :: "string \<Rightarrow> error + 64 word"

subsection \<open>\<open>homeDir\<close> and \<open>getClients\<close>\<close>

definition homeDir :: "('cfg, 'k8s, 'ath) env \<Rightarrow> string" where
  "homeDir env =
     (let h = Getenv env ''HOME''
      in if h \<noteq> [] then h else Getenv env ''USERPROFILE'')"

text \<open>Lines 50 to 55: the \<open>kubeconfig\<close> flag and its default.\<close>

definition kubeconfig_flag :: "('cfg, 'k8s, 'ath) env \<Rightarrow> string flag" where
  "kubeconfig_flag env =
     (let home = homeDir env
      in if home \<noteq> []
         then flag_var (arg_kubeconfig (Args env)) (Join env [home, ''.kube'', ''config''])
         else flag_var (arg_kubeconfig (Args env)) [])"

text \<open>Lines 56 to 61: the path handed to \<open>clientcmd.BuildConfigFromFlags\<close>.\<close>

definition kubeconfig_path :: "('cfg, 'k8s, 'ath) env \<Rightarrow> bool flag \<Rightarrow> string" where
  "kubeconfig_path env inClusterConfig =
     (let kubeconfig = kubeconfig_flag env
      in if deref inClusterConfig then [] else deref kubeconfig)"

definition getClients ::
  "('cfg, 'k8s, 'ath) env \<Rightarrow> bool flag \<Rightarrow> log_entry list \<times> (error + 'k8s \<times> 'ath) result" where
  "getClients env inClusterConfig =
     (case BuildConfigFromFlags env [] (kubeconfig_path env inClusterConfig) of
        Inl err \<Rightarrow> ([PanicEntry err], Panics BuildConfigFailed err)
      | Inr config \<Rightarrow>
          (case kubernetes_NewForConfig env config of
             Inl err \<Rightarrow>
               ([], Returns (Inl (''Failed to create k8s client from config. Error: '' @ err)))
           | Inr client \<Rightarrow>
               (case athenz_NewForConfig env config of
                  Inl err \<Rightarrow>
                    ([], Returns
                       (Inl (''Failed to create versiond client from config. Error: '' @ err)))
                | Inr versiondClient \<Rightarrow>
                    ([Info ''Successfully constructed k8s client''],
                     Returns (Inr (client, versiondClient))))))"

subsection \<open>\<open>createZMSClient\<close>\<close>

text \<open>\<open>tls.CertificateRequestInfo\<close>, what the server sent when it asked for a certificate.\<close>

datatype CertificateRequestInfo =
  CertificateRequestInfo (AcceptableCAs: "string list") (SignatureSchemes: "16 word list")
    (Version: "16 word")

text \<open>
  The two fields of \<open>tls.Config\<close> that choose the client certificate. The hook is a Go
  closure: it runs against the heap of the moment it is called.
\<close>

record tls_Config =
  GetClientCertificate ::
    "(CertificateRequestInfo \<Rightarrow> heap \<Rightarrow> Certificate option \<times> error option) option"
  Certificates :: "Certificate list"

record http_Transport =
  TLSClientConfig :: tls_Config
  DisableKeepAlives :: bool

record ZMSClient =
  URL :: string
  Transport :: http_Transport

text \<open>\<open>zms.NewClient\<close> of the Athenz client library stores its two arguments.\<close>

definition zms_NewClient :: "string \<Rightarrow> http_Transport \<Rightarrow> ZMSClient" where
  "zms_NewClient url transport = \<lparr>URL = url, Transport = transport\<rparr>"

definition createZMSClient :: "addr \<Rightarrow> string \<Rightarrow> bool \<Rightarrow> ZMSClient \<times> error option" where
  "createZMSClient reloader zmsURL disableKeepAlives =
     (let config = \<lparr>GetClientCertificate = None, Certificates = []\<rparr>;
          config = config\<lparr>GetClientCertificate :=
                     Some (\<lambda>_ h. (GetLatestCertificate (h reloader), None))\<rparr>;
          transport = \<lparr>TLSClientConfig = config, DisableKeepAlives = disableKeepAlives\<rparr>;
          client = zms_NewClient zmsURL transport
      in (client, None))"









subsection \<open>Strings: \<open>strings.Split\<close> and the system-namespaces loop\<close>

text \<open>
  Go's \<open>strings.Split(s, sep)\<close> for a one-byte separator: the substrings between the
  separators, in order. A string without separator gives the one-element list of
  itself, so the empty string gives \<open>[""]\<close>.
\<close>

fun Split :: "string \<Rightarrow> char \<Rightarrow> string list" where
  "Split [] sep = [[]]"
| "Split (c # cs) sep =
     (if c = sep then [] # Split cs sep
      else (case Split cs sep of
              [] \<Rightarrow> [[c]]
            | x # xs \<Rightarrow> (c # x) # xs))"

text \<open>
  \<open>strings.Join\<close> for a one-byte separator, the inverse of \<open>Split\<close>: it states what
  \<open>Split\<close> has to satisfy.
\<close>

fun Join_strings :: "string list \<Rightarrow> char \<Rightarrow> string" where
  "Join_strings [] sep = []"
| "Join_strings [x] sep = x"
| "Join_strings (x # y # ys) sep = x @ sep # Join_strings (y # ys) sep"

text \<open>
  Lines 139 to 144 of \<open>main\<close>:
  \<^verbatim>\<open>
  processList := []string{}
  for _, item := range systemNSList {
      if item != "" { processList = append(processList, item) }
  }
  \<close>
  The first argument is the part of \<open>systemNSList\<close> still to visit, \<open>acc\<close> is
  \<open>processList\<close>.
\<close>

fun processLoop :: "string list \<Rightarrow> string list \<Rightarrow> string list" where
  "processLoop [] acc = acc"
| "processLoop (item # rest) acc =
     processLoop rest (if item \<noteq> [] then acc @ [item] else acc)"

definition processList :: "string \<Rightarrow> string list" where
  "processList systemNamespaces =
     (let systemNSList = Split systemNamespaces CHR '',''
      in processLoop systemNSList [])"

text \<open>
  \<open>pkg/util\<close> and \<open>pkg/controller\<close> are not among the source files: \<open>NewUtil\<close> and
  \<open>NewController\<close> are kept as the record of the arguments \<open>main\<close> calls them with.
\<close>

record Util =
  util_adminDomain :: string
  util_systemNamespaces :: "string list"

definition NewUtil :: "string \<Rightarrow> string list \<Rightarrow> Util" where
  "NewUtil domain nss = \<lparr>util_adminDomain = domain, util_systemNamespaces = nss\<rparr>"

record ('k8s, 'ath) Controller =
  ctl_k8sClient :: 'k8s
  ctl_versiondClient :: 'ath
  ctl_zmsClient :: ZMSClient
  ctl_updatePeriod :: "64 word"
  ctl_resyncPeriod :: "64 word"
  ctl_delayInterval :: "64 word"
  ctl_util :: Util

definition NewController ::
  "'k8s \<Rightarrow> 'ath \<Rightarrow> ZMSClient \<Rightarrow> 64 word \<Rightarrow> 64 word \<Rightarrow> 64 word \<Rightarrow> Util \<Rightarrow> ('k8s, 'ath) Controller"
  where
  "NewController k v z up rp di u =
     \<lparr>ctl_k8sClient = k, ctl_versiondClient = v, ctl_zmsClient = z, ctl_updatePeriod = up,
      ctl_resyncPeriod = rp, ctl_delayInterval = di, ctl_util = u\<rparr>"

subsection \<open>\<open>main\<close>\<close>

text \<open>
  What \<open>main\<close> has set up when it blocks on \<open><-sigTerm\<close>: the controller, the channel
  given to \<open>go controller.Run\<close>, the deferred \<open>close\<close> calls, and the
  \<open>signal.Notify\<close> registrations.
\<close>

record ('k8s, 'ath) started =
  controller :: "('k8s, 'ath) Controller"
  run_stopCh :: chan
  deferred_close :: "chan list"
  notify :: "(chan \<times> signal) list"

datatype ('k8s, 'ath) outcome =
    Panicked panic_site string
  | Started "('k8s, 'ath) started"

text \<open>Lines 137 to 176, from the system-namespaces list on.\<close>

definition main_controller ::
  "('cfg, 'k8s, 'ath) env \<Rightarrow> 'k8s \<Rightarrow> 'ath \<Rightarrow> ZMSClient \<Rightarrow>
   log_entry list \<times> ('k8s, 'ath) outcome" where
  "main_controller env k8sClient versiondClient zmsClient =
     (let cl = Args env;
          updateCron = updateCron_flag cl;
          resyncCron = resyncCron_flag cl;
          queueDelayInterval = queueDelayInterval_flag cl;
          adminDomain = adminDomain_flag cl;
          systemNamespaces = systemNamespaces_flag cl;
          util = NewUtil (deref adminDomain) (processList (deref systemNamespaces))
      in case ParseDuration env (deref updateCron) of
           Inl err \<Rightarrow>
             (let m = ''Update Cron interval input is invalid. Error: '' @ err
              in ([PanicEntry m], Panicked UpdateCronInvalid m))
         | Inr updatePeriod \<Rightarrow>
             (case ParseDuration env (deref resyncCron) of
                Inl err \<Rightarrow>
                  (let m = ''Full Resync Cron interval input is invalid. Error: '' @ err
                   in ([PanicEntry m], Panicked ResyncCronInvalid m))
              | Inr resyncPeriod \<Rightarrow>
                  (case ParseDuration env (deref queueDelayInterval) of
                     Inl err \<Rightarrow>
                       (let m = ''Queue delay input is invalid. Error: '' @ err
                        in ([PanicEntry m], Panicked QueueDelayInvalid m))
                   | Inr delayInterval \<Rightarrow>
                       ([], Started
                          \<lparr>controller =
                             NewController k8sClient versiondClient zmsClient updatePeriod
                               resyncPeriod delayInterval util,
                           run_stopCh = StopCh,
                           deferred_close = [StopCh],
                           notify = [(SigTerm, SIGTERM), (SigTerm, SIGINT)]\<rparr>))))"

text \<open>Lines 131 to 136: the result of \<open>createZMSClient\<close> and its error check.\<close>

definition main_zms ::
  "('cfg, 'k8s, 'ath) env \<Rightarrow> 'k8s \<Rightarrow> 'ath \<Rightarrow> ZMSClient \<times> error option \<Rightarrow>
   log_entry list \<times> ('k8s, 'ath) outcome" where
  "main_zms env k8sClient versiondClient r =
     (case r of
        (zmsClient, Some err) \<Rightarrow>
          (let m = ''Error occurred when creating zms client. Error: '' @ err
           in ([PanicEntry m], Panicked ZMSClientFailed m))
      | (zmsClient, None) \<Rightarrow>
          (case main_controller env k8sClient versiondClient zmsClient of
             (l, out) \<Rightarrow> (Info ''Sucessfully created ZMS Client'' # l, out)))"

text \<open>Lines 119 to 134: the stop channel, the reloader, the ZMS client.\<close>

definition main_reloader ::
  "('cfg, 'k8s, 'ath) env \<Rightarrow> 'k8s \<Rightarrow> 'ath \<Rightarrow> log_entry list \<times> ('k8s, 'ath) outcome" where
  "main_reloader env k8sClient versiondClient =
     (let cl = Args env;
          key = key_flag cl;
          cert = cert_flag cl;
          zmsURL = zmsURL_flag cl;
          disableKeepAlives = disableKeepAlives_flag cl;
          stopCh = StopCh
      in case NewCertReloader env \<lparr>KeyFile = deref key, CertFile = deref cert\<rparr> stopCh of
           Inl err \<Rightarrow>
             (let m = ''Error occurred when creating new reloader. Error: '' @ err
              in ([PanicEntry m], Panicked ReloaderFailed m))
         | Inr certReloader \<Rightarrow>
             main_zms env k8sClient versiondClient
               (createZMSClient certReloader (deref zmsURL) (deref disableKeepAlives)))"

text \<open>
  Lines 96 to 117. \<open>log.InitLogger\<close> reads \<open>*logLoc\<close> and \<open>*logMode\<close> before
  \<open>flag.Parse\<close> has run (it runs inside \<open>getClients\<close>).
\<close>

definition main :: "('cfg, 'k8s, 'ath) env \<Rightarrow> log_entry list \<times> ('k8s, 'ath) outcome" where
  "main env =
     (let cl = Args env;
          logLoc = logLoc_flag cl;
          logMode = logMode_flag cl;
          l0 = [InitLogger (deref_unparsed logLoc) (deref_unparsed logMode)];
          inClusterConfig = inClusterConfig_flag cl
      in case getClients env inClusterConfig of
           (l1, Panics site m) \<Rightarrow> (l0 @ l1, Panicked site m)
         | (l1, Returns (Inl err)) \<Rightarrow>
             (let m = ''Error occurred when creating clients. Error: '' @ err
              in (l0 @ l1 @ [PanicEntry m], Panicked ClientsFailed m))
         | (l1, Returns (Inr (k8sClient, versiondClient))) \<Rightarrow>
             (case main_reloader env k8sClient versiondClient of
                (l2, out) \<Rightarrow> (l0 @ l1 @ l2, out)))"

text \<open>What a run of \<open>main\<close> that reached \<open><-sigTerm\<close> has set up.\<close>

fun started_of :: "('k8s, 'ath) outcome \<Rightarrow> ('k8s, 'ath) started option" where
  "started_of (Started st) = Some st"
| "started_of (Panicked site m) = None"

text \<open>The second argument of the \<open>util.NewUtil\<close> call, when \<open>main\<close> gets that far.\<close>

definition namespaces_passed :: "('cfg, 'k8s, 'ath) env \<Rightarrow> string list option" where
  "namespaces_passed env =
     map_option (\<lambda>st. util_systemNamespaces (ctl_util (controller st)))
       (started_of (snd (main env)))"


subsection \<open>The process while \<open>main\<close> waits for a signal\<close>

text \<open>
  Lines 166 to 176. The process state after \<open>go controller.Run(stopCh)\<close>: the buffer of
  \<open>sigTerm\<close> (capacity 1), the channels closed so far, whether the program has exited,
  and the units of work the controller goroutine has in flight.
\<close>

record proc =
  deferred :: "chan list"
  notified :: "(chan \<times> signal) list"
  worker_stop :: chan
  sigTerm_buf :: "signal list"
  closed :: "chan list"
  exited :: bool
  inflight :: nat

definition boot :: "('k8s, 'ath) started \<Rightarrow> proc" where
  "boot st =
     \<lparr>deferred = deferred_close st, notified = notify st, worker_stop = run_stopCh st,
      sigTerm_buf = [], closed = [], exited = False, inflight = 0\<rparr>"

text \<open>
  The scheduler's choices. \<open>Deliver\<close>: the operating system delivers a signal;
  \<open>signal.Notify\<close> does a non-blocking send on the registered channel (a signal that
  finds the buffer full is dropped), and a signal nobody registered for terminates a Go
  program. \<open>MainRecv\<close>: the main goroutine runs; at \<open><-sigTerm\<close> it is blocked while
  the buffer is empty, otherwise it receives, \<open>main\<close> returns, the deferred
  \<open>close(stopCh)\<close> runs and the program exits (Go does not wait for other goroutines
  when \<open>main\<close> returns).
\<close>

text \<open>
  Modelled from the spec: \<open>controller.Run\<close> (\<open>pkg/controller\<close>) is not among the
  source files. Section 5: a worker takes up a unit of work unless shutdown has been
  signalled (\<open>WorkerStart\<close>) and finishes it (\<open>WorkerFinish\<close>); no goroutine runs after
  the program has exited.
\<close>

datatype event = Deliver signal | MainRecv | WorkerStart | WorkerFinish

fun step :: "event \<Rightarrow> proc \<Rightarrow> proc" where
  "step (Deliver sg) p =
     (if exited p then p
      else if (SigTerm, sg) \<in> set (notified p)
      then (if length (sigTerm_buf p) < 1 then p\<lparr>sigTerm_buf := sigTerm_buf p @ [sg]\<rparr> else p)
      else p\<lparr>exited := True\<rparr>)"
| "step MainRecv p =
     (if exited p then p
      else (case sigTerm_buf p of
              [] \<Rightarrow> p
            | sg # rest \<Rightarrow>
                p\<lparr>sigTerm_buf := rest, closed := closed p @ deferred p, exited := True\<rparr>))"
| "step WorkerStart p =
     (if exited p \<or> worker_stop p \<in> set (closed p) then p
      else p\<lparr>inflight := inflight p + 1\<rparr>)"
| "step WorkerFinish p =
     (if exited p \<or> inflight p = 0 then p
      else p\<lparr>inflight := inflight p - 1\<rparr>)"

fun run :: "event list \<Rightarrow> proc \<Rightarrow> proc" where
  "run [] p = p"
| "run (e # es) p = run es (step e p)"

fun is_Deliver :: "event \<Rightarrow> bool" where
  "is_Deliver (Deliver sg) = True"
| "is_Deliver e = False"

text \<open>The process \<open>main\<close> leaves behind when it blocks, if it gets that far.\<close>

definition main_proc :: "('cfg, 'k8s, 'ath) env \<Rightarrow> proc option" where
  "main_proc env = map_option boot (started_of (snd (main env)))"

text \<open>"Exits after in-flight work settles": an exited process has nothing in flight.\<close>

definition exits_settled :: "proc \<Rightarrow> bool" where
  "exits_settled p = (if exited p then inflight p = 0 else True)"

subsection \<open>The certificate reloader\<close>

text \<open>
  Modelled from the spec: \<open>pkg/reloader\<close> is not among the source files. Section 4.5:
  \<open>NewCertReloader\<close> parses the configured files and fails when they do not parse; the
  reload goroutine re-reads and parses the files on its timer and "only if parsing
  succeeds" swaps the active bundle atomically; "if parsing fails, log the error and keep
  serving the previous bundle". The parser (\<open>tls.X509KeyPair\<close>) is a parameter; the file
  system maps a path to the file's contents.
\<close>

type_synonym files = "string \<Rightarrow> string option"

definition loadBundle ::
  "(string \<Rightarrow> string \<Rightarrow> error + Certificate) \<Rightarrow> files \<Rightarrow> ReloadConfig \<Rightarrow> error + Certificate"
  where
  "loadBundle X509KeyPair fs cfg =
     (case fs (CertFile cfg) of
        None \<Rightarrow> Inl (''open '' @ CertFile cfg @ '': no such file or directory'')
      | Some certPEM \<Rightarrow>
          (case fs (KeyFile cfg) of
             None \<Rightarrow> Inl (''open '' @ KeyFile cfg @ '': no such file or directory'')
           | Some keyPEM \<Rightarrow> X509KeyPair certPEM keyPEM))"

definition r_NewCertReloader ::
  "(string \<Rightarrow> string \<Rightarrow> error + Certificate) \<Rightarrow> files \<Rightarrow> ReloadConfig \<Rightarrow> error + CertReloader"
  where
  "r_NewCertReloader X509KeyPair fs cfg =
     (case loadBundle X509KeyPair fs cfg of
        Inl err \<Rightarrow> Inl err
      | Inr c \<Rightarrow> Inr \<lparr>current = Some c, reload_config = cfg\<rparr>)"

text \<open>
  The reload goroutine is either between two reloads or holds the result of a parse it
  has not acted on yet: a reader may run between the parse and the swap.
\<close>

datatype reload_pc = Sleeping | Loaded "error + Certificate"

record reload_sys =
  fsys :: files
  reloader_obj :: CertReloader
  reload_at :: reload_pc
  reload_errors :: "error list"

datatype reload_event =
    WriteFile string "string option"
  | ReloadLoad
  | ReloadSwap

fun reload_step ::
  "(string \<Rightarrow> string \<Rightarrow> error + Certificate) \<Rightarrow> reload_event \<Rightarrow> reload_sys \<Rightarrow> reload_sys"
  where
  "reload_step X (WriteFile path contents) s = s\<lparr>fsys := (fsys s)(path := contents)\<rparr>"
| "reload_step X ReloadLoad s =
     (case reload_at s of
        Sleeping \<Rightarrow> s\<lparr>reload_at := Loaded (loadBundle X (fsys s) (reload_config (reloader_obj s)))\<rparr>
      | Loaded r \<Rightarrow> s)"
| "reload_step X ReloadSwap s =
     (case reload_at s of
        Sleeping \<Rightarrow> s
      | Loaded (Inl err) \<Rightarrow>
          s\<lparr>reload_errors := reload_errors s @ [err], reload_at := Sleeping\<rparr>
      | Loaded (Inr c) \<Rightarrow>
          s\<lparr>reloader_obj := (reloader_obj s)\<lparr>current := Some c\<rparr>, reload_at := Sleeping\<rparr>)"

fun reload_run ::
  "(string \<Rightarrow> string \<Rightarrow> error + Certificate) \<Rightarrow> reload_event list \<Rightarrow> reload_sys \<Rightarrow> reload_sys"
  where
  "reload_run X [] s = s"
| "reload_run X (e # es) s = reload_run X es (reload_step X e s)"

definition reload_init :: "files \<Rightarrow> CertReloader \<Rightarrow> reload_sys" where
  "reload_init fs r =
     \<lparr>fsys = fs, reloader_obj = r, reload_at = Sleeping, reload_errors = []\<rparr>"

text \<open>The bundle is one the parser produced.\<close>

definition parsed_bundle ::
  "(string \<Rightarrow> string \<Rightarrow> error + Certificate) \<Rightarrow> Certificate option \<Rightarrow> bool" where
  "parsed_bundle X b = (\<exists>c certPEM keyPEM. b = Some c \<and> X certPEM keyPEM = Inr c)"

definition reload_inv ::
  "(string \<Rightarrow> string \<Rightarrow> error + Certificate) \<Rightarrow> reload_sys \<Rightarrow> bool" where
  "reload_inv X s =
     (parsed_bundle X (current (reloader_obj s)) \<and>
      (case reload_at s of
         Loaded (Inr c) \<Rightarrow> parsed_bundle X (Some c)
       | _ \<Rightarrow> True))"

subsection \<open>A concrete environment\<close>

text \<open>Test doubles for the collaborators, used to run the definitions on concrete input.\<close>

definition demo_args :: cmdline where
  "demo_args =
     \<lparr>arg_key = None, arg_cert = None, arg_zms_url = Some ''https://zms.example:4443/zms/v1'',
      arg_update_cron = None, arg_resync_cron = None, arg_queue_delay_interval = None,
      arg_admin_domain = Some ''k8s.admin'',
      arg_system_namespaces = Some ''kube-system,,default,'',
      arg_disable_keep_alives = None, arg_log_location = Some ''/tmp/syncer.log'',
      arg_log_mode = None, arg_inClusterConfig = Some False, arg_kubeconfig = None\<rparr>"

fun demo_Join :: "string list \<Rightarrow> string" where
  "demo_Join [] = []"
| "demo_Join [x] = x"
| "demo_Join (x # y # ys) = x @ ''/'' @ demo_Join (y # ys)"

definition demo_ParseDuration :: "string \<Rightarrow> error + 64 word" where
  "demo_ParseDuration s =
     (if s = ''1m0s'' then Inr 60000000000
      else if s = ''1h0m0s'' then Inr 3600000000000
      else if s = ''250ms'' then Inr 250000000
      else Inl (''time: invalid duration '' @ s))"

definition demo_env :: "(nat, nat, nat) env" where
  "demo_env =
     \<lparr>Getenv = (\<lambda>name. if name = ''HOME'' then ''/home/syncer'' else []),
      Args = demo_args,
      Join = demo_Join,
      BuildConfigFromFlags = (\<lambda>masterUrl path. if path = [] then Inl ''no cluster'' else Inr 0),
      kubernetes_NewForConfig = (\<lambda>cfg. Inr 1),
      athenz_NewForConfig = (\<lambda>cfg. Inr 2),
      NewCertReloader = (\<lambda>cfg ch. Inr 7),
      ParseDuration = demo_ParseDuration\<rparr>"

definition demo_X509KeyPair :: "string \<Rightarrow> string \<Rightarrow> error + Certificate" where
  "demo_X509KeyPair certPEM keyPEM =
     (if certPEM = ''CERT'' \<and> keyPEM = ''KEY'' then Inr (Certificate [''der''] ''key'')
      else Inl ''tls: failed to find any PEM data in certificate input'')"

definition demo_files :: files where
  "demo_files =
     (\<lambda>path. if path = ''/k'' then Some ''KEY'' else if path = ''/c'' then Some ''CERT'' else None)"

definition demo_cfg :: ReloadConfig where
  "demo_cfg = \<lparr>KeyFile = ''/k'', CertFile = ''/c''\<rparr>"

definition demo_started :: "(nat, nat) started" where
  "demo_started =
     \<lparr>controller =
        NewController 1 2 (fst (createZMSClient 7 ''https://zms.example:4443/zms/v1'' True))
          60000000000 3600000000000 250000000
          (NewUtil ''k8s.admin'' [''kube-system'', ''default'']),
      run_stopCh = StopCh, deferred_close = [StopCh],
      notify = [(SigTerm, SIGTERM), (SigTerm, SIGINT)]\<rparr>"

definition unset_env :: "(nat, nat, nat) env" where
  "unset_env = demo_env\<lparr>Args := demo_args\<lparr>arg_system_namespaces := None\<rparr>\<rparr>"

definition in_cluster_env :: "(nat, nat, nat) env" where
  "in_cluster_env =
     demo_env\<lparr>Args := demo_args\<lparr>arg_inClusterConfig := None,
                                 arg_kubeconfig := Some ''/etc/kubeconfig''\<rparr>\<rparr>"

definition no_k8s_env :: "(nat, nat, nat) env" where
  "no_k8s_env = demo_env\<lparr>kubernetes_NewForConfig := (\<lambda>cfg. Inl ''bad host'')\<rparr>"

definition no_versiond_env :: "(nat, nat, nat) env" where
  "no_versiond_env = demo_env\<lparr>athenz_NewForConfig := (\<lambda>cfg. Inl ''bad host'')\<rparr>"

definition no_cert_env :: "(nat, nat, nat) env" where
  "no_cert_env = demo_env\<lparr>NewCertReloader := (\<lambda>cfg ch. Inl ''no PEM data'')\<rparr>"

definition bad_update_env :: "(nat, nat, nat) env" where
  "bad_update_env = demo_env\<lparr>Args := demo_args\<lparr>arg_update_cron := Some ''soon''\<rparr>\<rparr>"

definition bad_resync_env :: "(nat, nat, nat) env" where
  "bad_resync_env = demo_env\<lparr>Args := demo_args\<lparr>arg_resync_cron := Some ''1 hour''\<rparr>\<rparr>"

definition bad_delay_env :: "(nat, nat, nat) env" where
  "bad_delay_env = demo_env\<lparr>Args := demo_args\<lparr>arg_queue_delay_interval := Some []\<rparr>\<rparr>"

definition demo_zms :: ZMSClient where
  "demo_zms = fst (createZMSClient 7 ''https://zms.example:4443/zms/v1'' True)"






definition demo_reload_events :: "reload_event list" where
  "demo_reload_events = [WriteFile ''/c'' (Some ''garbage''), ReloadLoad]"

definition demo_reloader :: CertReloader where
  "demo_reloader = \<lparr>current = Some (Certificate [''der''] ''key''), reload_config = demo_cfg\<rparr>"

section \<open>Properties\<close>

subsection \<open>Helper lemmas\<close>

lemma processLoop_filter:
  "processLoop xs acc = acc @ filter (\<lambda>item. item \<noteq> []) xs"
  by (induction xs arbitrary: acc) simp_all

lemma processList_filter:
  "processList v = filter (\<lambda>item. item \<noteq> []) (Split v CHR '','')"
  by (simp add: processList_def processLoop_filter)

lemma Split_not_Nil: "Split s sep \<noteq> []"
  by (induction s) (simp_all split: list.splits)

text \<open>
  \<open>Split\<close> is Go's: joining its result gives the string back, no component contains
  the separator, and there is one component more than separators.
\<close>

lemma Split_Join: "Join_strings (Split s sep) sep = s"
proof (induction s)
  case Nil
  then show ?case by simp
next
  case (Cons c cs)
  then show ?case
    by (cases "Split cs sep"; cases "tl (Split cs sep)")
       (auto simp: Split_not_Nil split: list.splits)
qed

lemma Split_no_sep: "x \<in> set (Split s sep) \<Longrightarrow> sep \<notin> set x"
  by (induction s arbitrary: x) (auto split: if_splits list.splits)

lemma length_Split: "length (Split s sep) = Suc (count_list s sep)"
  by (induction s) (auto split: list.splits simp: Split_not_Nil)

lemma main_controller_panic:
  "main_controller env k v z = (l, Panicked s m) \<Longrightarrow>
   l = [PanicEntry m] \<and> s \<in> {UpdateCronInvalid, ResyncCronInvalid, QueueDelayInvalid}"
  by (auto simp: main_controller_def Let_def split: sum.splits)

lemma main_controller_started:
  "main_controller env k v z = (l, Started st) \<Longrightarrow>
   l = [] \<and>
   ParseDuration env (deref (updateCron_flag (Args env))) = Inr (ctl_updatePeriod (controller st)) \<and>
   ParseDuration env (deref (resyncCron_flag (Args env))) = Inr (ctl_resyncPeriod (controller st)) \<and>
   ParseDuration env (deref (queueDelayInterval_flag (Args env)))
     = Inr (ctl_delayInterval (controller st)) \<and>
   ctl_k8sClient (controller st) = k \<and> ctl_versiondClient (controller st) = v \<and>
   ctl_zmsClient (controller st) = z \<and>
   ctl_util (controller st) =
     NewUtil (deref (adminDomain_flag (Args env)))
       (processList (deref (systemNamespaces_flag (Args env)))) \<and>
   run_stopCh st = StopCh \<and> deferred_close st = [StopCh] \<and>
   notify st = [(SigTerm, SIGTERM), (SigTerm, SIGINT)]"
  by (auto simp: main_controller_def Let_def NewController_def split: sum.splits)

lemma main_reloader_panic:
  "main_reloader env k v = (l, Panicked s m) \<Longrightarrow>
   (\<exists>l'. l = l' @ [PanicEntry m]) \<and> s \<noteq> ZMSClientFailed"
  by (auto simp: main_reloader_def main_zms_def createZMSClient_def Let_def
      split: prod.splits option.splits sum.splits dest!: main_controller_panic)

lemma main_panic:
  "main env = (l, Panicked s m) \<Longrightarrow>
   (\<exists>l'. l = l' @ [PanicEntry m]) \<and> s \<noteq> ZMSClientFailed"
  by (auto simp: main_def getClients_def Let_def
      split: prod.splits option.splits sum.splits result.splits dest!: main_reloader_panic)

lemma main_started:
  "main env = (l, Started st) \<Longrightarrow>
   \<exists>cfg k v r l'.
     BuildConfigFromFlags env []
       (kubeconfig_path env (inClusterConfig_flag (Args env))) = Inr cfg \<and>
     kubernetes_NewForConfig env cfg = Inr k \<and>
     athenz_NewForConfig env cfg = Inr v \<and>
     NewCertReloader env
       \<lparr>KeyFile = deref (key_flag (Args env)), CertFile = deref (cert_flag (Args env))\<rparr>
       StopCh = Inr r \<and>
     main_controller env k v
       (fst (createZMSClient r (deref (zmsURL_flag (Args env)))
          (deref (disableKeepAlives_flag (Args env))))) = (l', Started st)"
  by (auto simp: main_def getClients_def main_reloader_def main_zms_def createZMSClient_def Let_def
      split: prod.splits option.splits sum.splits result.splits)

lemma started_of_Some: "started_of out = Some st \<longleftrightarrow> out = Started st"
  by (cases out) auto

lemma started_of_None: "started_of out = None \<longleftrightarrow> (\<exists>s m. out = Panicked s m)"
  by (cases out) auto

lemma main_started_wiring:
  assumes "started_of (snd (main env)) = Some st"
  shows "ctl_util (controller st) =
           NewUtil (deref (adminDomain_flag (Args env)))
             (processList (deref (systemNamespaces_flag (Args env))))"
    and "run_stopCh st = StopCh" and "deferred_close st = [StopCh]"
    and "notify st = [(SigTerm, SIGTERM), (SigTerm, SIGINT)]"
proof -
  from assms have "main env = (fst (main env), Started st)"
    by (simp add: started_of_Some prod_eq_iff)
  from main_started [OF this] obtain k v z l' where
    "main_controller env k v z = (l', Started st)" by blast
  from main_controller_started [OF this]
  show "ctl_util (controller st) =
           NewUtil (deref (adminDomain_flag (Args env)))
             (processList (deref (systemNamespaces_flag (Args env))))"
    and "run_stopCh st = StopCh" and "deferred_close st = [StopCh]"
    and "notify st = [(SigTerm, SIGTERM), (SigTerm, SIGINT)]"
    by simp_all
qed

text \<open>The flag definitions and the small steps, for evaluating \<open>main\<close> on a concrete environment.\<close>

lemmas flag_defs =
  key_flag_def cert_flag_def zmsURL_flag_def updateCron_flag_def resyncCron_flag_def
  queueDelayInterval_flag_def adminDomain_flag_def systemNamespaces_flag_def
  disableKeepAlives_flag_def logLoc_flag_def logMode_flag_def inClusterConfig_flag_def
  deref_def deref_unparsed_def flag_var_def

lemmas main_defs =
  main_def getClients_def main_reloader_def main_zms_def main_controller_def
  kubeconfig_path_def kubeconfig_flag_def homeDir_def createZMSClient_def processList_def
  Let_def

lemma main_demo_env:
  "main demo_env =
     ([InitLogger ''/var/log/k8s-athenz-syncer/k8s-athenz-syncer.log'' ''info'',
       Info ''Successfully constructed k8s client'',
       Info ''Sucessfully created ZMS Client''],
      Started demo_started)"
  by (simp add: main_defs flag_defs demo_env_def demo_args_def demo_ParseDuration_def
      demo_started_def)

lemma main_outcome_cases:
  "(\<exists>l s m. main env = (l, Panicked s m)) \<or> (\<exists>l st. main env = (l, Started st))"
  by (cases "main env"; cases "snd (main env)") auto

lemma main_not_started_panics:
  assumes "\<And>l st. main env \<noteq> (l, Started st)"
  shows "\<exists>l s m. main env = (l @ [PanicEntry m], Panicked s m)"
proof -
  from main_outcome_cases [of env] assms obtain l s m where h: "main env = (l, Panicked s m)"
    by blast
  from main_panic [OF h] h show ?thesis by blast
qed

subsection \<open>The system-namespaces list\<close>

text \<open>
  Claim C8, as stated: the excluded-namespace list passed to \<open>NewUtil\<close> is exactly the
  comma-split components of the flag value. It fails for the flag value
  \<open>kube-system,,default,\<close>: \<open>Split\<close> gives four components, two of them empty, and
  \<open>main\<close> passes the two non-empty ones.
\<close>

theorem namespaces_passed_not_Split:
  "namespaces_passed demo_env \<noteq> Some (Split ''kube-system,,default,'' CHR '','')"
  by (simp add: namespaces_passed_def main_demo_env demo_started_def NewController_def
      NewUtil_def)

text \<open>
  Claim C8, amended: for every flag value, the list passed to \<open>NewUtil\<close> is the
  comma-split components of the flag value, in order, without the empty components.
\<close>

theorem namespaces_passed_filter:
  "namespaces_passed env = Some nss \<Longrightarrow>
   nss = filter (\<lambda>item. item \<noteq> [])
           (Split (deref (systemNamespaces_flag (Args env))) CHR '','')"
  by (auto simp: namespaces_passed_def NewUtil_def processList_filter
      dest!: main_started_wiring(1))

theorem namespaces_passed_filter_witness:
  "namespaces_passed demo_env = Some [''kube-system'', ''default''] \<and>
   [''kube-system'', ''default''] =
     filter (\<lambda>item. item \<noteq> [])
       (Split (deref (systemNamespaces_flag (Args demo_env))) CHR '','')"
proof -
  have h: "namespaces_passed demo_env = Some [''kube-system'', ''default'']"
    by (simp add: namespaces_passed_def main_demo_env demo_started_def NewController_def
      NewUtil_def)
  from h namespaces_passed_filter [OF h] show ?thesis by simp
qed

subsection \<open>An unset or sparse flag gives no empty namespace name\<close>

text \<open>
  Claim C10: the list passed to \<open>NewUtil\<close> never contains the empty string; the empty
  components of the split are left out, and an unset flag gives the empty list.
\<close>

theorem namespaces_passed_nonempty:
  "namespaces_passed env = Some nss \<Longrightarrow>
   [] \<notin> set nss \<and> (arg_system_namespaces (Args env) = None \<longrightarrow> nss = [])"
  by (auto simp: namespaces_passed_def NewUtil_def processList_filter
      systemNamespaces_flag_def deref_def flag_var_def
      dest!: main_started_wiring(1))

theorem namespaces_passed_nonempty_witness:
  "namespaces_passed unset_env = Some [] \<and> arg_system_namespaces (Args unset_env) = None \<and>
   Split (deref (systemNamespaces_flag (Args unset_env))) CHR '','' = [[]]"
proof -
  have h: "namespaces_passed unset_env = Some []"
    by (simp add: namespaces_passed_def unset_env_def main_defs flag_defs demo_env_def
        demo_args_def demo_ParseDuration_def NewController_def NewUtil_def)
  from namespaces_passed_nonempty [OF h] h show ?thesis
    by (simp add: unset_env_def flag_defs)
qed

subsection \<open>\<open>createZMSClient\<close> cannot fail\<close>

text \<open>
  Claim C9: \<open>createZMSClient\<close> returns a nil error for every reloader, URL and
  keep-alive flag, so no run of \<open>main\<close> panics at the check of that error.
\<close>

theorem createZMSClient_no_error:
  "snd (createZMSClient reloader zmsURL disableKeepAlives) = None \<and>
   (\<forall>l m. main env \<noteq> (l, Panicked ZMSClientFailed m))"
  by (auto simp: createZMSClient_def Let_def dest: main_panic)

subsection \<open>The kubeconfig path\<close>


subsection \<open>The client certificate of a handshake and of a call\<close>








subsection \<open>Fatal startup errors\<close>

text \<open>
  Claim C3: when \<open>NewCertReloader\<close> returns an error, \<open>main\<close> does not start: it
  panics, and the last log entry is the message it panics with. Once the clients were
  built, the panic is the one of line 127, whose message carries the error; nothing
  after it runs.
\<close>

theorem reloader_error_is_fatal:
  assumes "NewCertReloader env
             \<lparr>KeyFile = deref (key_flag (Args env)), CertFile = deref (cert_flag (Args env))\<rparr>
             StopCh = Inl err"
  shows "(\<exists>l s m. main env = (l @ [PanicEntry m], Panicked s m)) \<and>
         main_reloader env k v =
           ([PanicEntry (''Error occurred when creating new reloader. Error: '' @ err)],
            Panicked ReloaderFailed (''Error occurred when creating new reloader. Error: '' @ err))
         \<and>
         (\<forall>l1 k' v'. getClients env (inClusterConfig_flag (Args env)) = (l1, Returns (Inr (k', v')))
            \<longrightarrow> main env =
              (InitLogger (deref_unparsed (logLoc_flag (Args env)))
                 (deref_unparsed (logMode_flag (Args env))) # l1 @
               [PanicEntry (''Error occurred when creating new reloader. Error: '' @ err)],
               Panicked ReloaderFailed
                 (''Error occurred when creating new reloader. Error: '' @ err)))"
proof -
  have "main env \<noteq> (l, Started st)" for l st
    using main_started [of env l st] assms by auto
  then have a: "\<exists>l s m. main env = (l @ [PanicEntry m], Panicked s m)"
    by (rule main_not_started_panics)
  have b: "main_reloader env k'' v'' =
           ([PanicEntry (''Error occurred when creating new reloader. Error: '' @ err)],
            Panicked ReloaderFailed (''Error occurred when creating new reloader. Error: '' @ err))"
    for k'' :: 'b and v'' :: 'c
    using assms by (simp add: main_reloader_def Let_def)
  have c: "main env =
              (InitLogger (deref_unparsed (logLoc_flag (Args env)))
                 (deref_unparsed (logMode_flag (Args env))) # l1 @
               [PanicEntry (''Error occurred when creating new reloader. Error: '' @ err)],
               Panicked ReloaderFailed
                 (''Error occurred when creating new reloader. Error: '' @ err))"
    if "getClients env (inClusterConfig_flag (Args env)) = (l1, Returns (Inr (k', v')))"
    for l1 k' v'
    using that b [of k' v'] by (simp add: main_def Let_def)
  from a b c show ?thesis by blast
qed

theorem reloader_error_is_fatal_witness:
  "NewCertReloader no_cert_env
     \<lparr>KeyFile = deref (key_flag (Args no_cert_env)),
      CertFile = deref (cert_flag (Args no_cert_env))\<rparr> StopCh = Inl ''no PEM data'' \<and>
   main no_cert_env =
     ([InitLogger ''/var/log/k8s-athenz-syncer/k8s-athenz-syncer.log'' ''info'',
       Info ''Successfully constructed k8s client'',
       PanicEntry ''Error occurred when creating new reloader. Error: no PEM data''],
      Panicked ReloaderFailed ''Error occurred when creating new reloader. Error: no PEM data'')"
proof -
  have h: "NewCertReloader no_cert_env
     \<lparr>KeyFile = deref (key_flag (Args no_cert_env)),
      CertFile = deref (cert_flag (Args no_cert_env))\<rparr> StopCh = Inl ''no PEM data''"
    by (simp add: no_cert_env_def demo_env_def)
  have g: "getClients no_cert_env (inClusterConfig_flag (Args no_cert_env)) =
             ([Info ''Successfully constructed k8s client''], Returns (Inr (1, 2)))"
    by (simp add: main_defs flag_defs no_cert_env_def demo_env_def demo_args_def)
  from reloader_error_is_fatal [OF h, of 1 2] g
  have "main no_cert_env =
              (InitLogger (deref_unparsed (logLoc_flag (Args no_cert_env)))
                 (deref_unparsed (logMode_flag (Args no_cert_env))) #
               [Info ''Successfully constructed k8s client''] @
               [PanicEntry (''Error occurred when creating new reloader. Error: '' @
                            ''no PEM data'')],
               Panicked ReloaderFailed
                 (''Error occurred when creating new reloader. Error: '' @ ''no PEM data''))"
    by blast
  with h show ?thesis by (simp add: flag_defs)
qed

text \<open>
  Claim C4: when one of \<open>update-cron\<close>, \<open>resync-cron\<close>, \<open>queue-delay-interval\<close>
  is not a valid duration, \<open>main\<close> panics (no controller is constructed) and the last
  log entry is the message of the panic; the three checks run in this order, each with its
  own message carrying the parser's error. When all three parse, the controller is
  constructed with exactly the parsed values.
\<close>

theorem duration_flags:
  "(((\<exists>e. ParseDuration env (deref (updateCron_flag (Args env))) = Inl e) \<or>
     (\<exists>e. ParseDuration env (deref (resyncCron_flag (Args env))) = Inl e) \<or>
     (\<exists>e. ParseDuration env (deref (queueDelayInterval_flag (Args env))) = Inl e))
    \<longrightarrow> (\<exists>l s m. main env = (l @ [PanicEntry m], Panicked s m))) \<and>
   (ParseDuration env (deref (updateCron_flag (Args env))) = Inl e
    \<longrightarrow> main_controller env k v z =
          ([PanicEntry (''Update Cron interval input is invalid. Error: '' @ e)],
           Panicked UpdateCronInvalid (''Update Cron interval input is invalid. Error: '' @ e)))
   \<and>
   (ParseDuration env (deref (updateCron_flag (Args env))) = Inr up \<and>
    ParseDuration env (deref (resyncCron_flag (Args env))) = Inl e
    \<longrightarrow> main_controller env k v z =
          ([PanicEntry (''Full Resync Cron interval input is invalid. Error: '' @ e)],
           Panicked ResyncCronInvalid
             (''Full Resync Cron interval input is invalid. Error: '' @ e))) \<and>
   (ParseDuration env (deref (updateCron_flag (Args env))) = Inr up \<and>
    ParseDuration env (deref (resyncCron_flag (Args env))) = Inr rp \<and>
    ParseDuration env (deref (queueDelayInterval_flag (Args env))) = Inl e
    \<longrightarrow> main_controller env k v z =
          ([PanicEntry (''Queue delay input is invalid. Error: '' @ e)],
           Panicked QueueDelayInvalid (''Queue delay input is invalid. Error: '' @ e))) \<and>
   (ParseDuration env (deref (updateCron_flag (Args env))) = Inr up \<and>
    ParseDuration env (deref (resyncCron_flag (Args env))) = Inr rp \<and>
    ParseDuration env (deref (queueDelayInterval_flag (Args env))) = Inr di
    \<longrightarrow> (\<exists>st. main_controller env k v z = ([], Started st) \<and>
              controller st =
                NewController k v z up rp di
                  (NewUtil (deref (adminDomain_flag (Args env)))
                     (processList (deref (systemNamespaces_flag (Args env))))))) \<and>
   (\<forall>l st. main env = (l, Started st) \<longrightarrow>
      ParseDuration env (deref (updateCron_flag (Args env)))
        = Inr (ctl_updatePeriod (controller st)) \<and>
      ParseDuration env (deref (resyncCron_flag (Args env)))
        = Inr (ctl_resyncPeriod (controller st)) \<and>
      ParseDuration env (deref (queueDelayInterval_flag (Args env)))
        = Inr (ctl_delayInterval (controller st)))"
proof -
  have st: "ParseDuration env (deref (updateCron_flag (Args env)))
        = Inr (ctl_updatePeriod (controller st)) \<and>
      ParseDuration env (deref (resyncCron_flag (Args env)))
        = Inr (ctl_resyncPeriod (controller st)) \<and>
      ParseDuration env (deref (queueDelayInterval_flag (Args env)))
        = Inr (ctl_delayInterval (controller st))"
    if "main env = (l, Started st)" for l st
  proof -
    from main_started [OF that] obtain k' v' z' l' where
      "main_controller env k' v' z' = (l', Started st)" by blast
    from main_controller_started [OF this] show ?thesis by simp
  qed
  have a: "\<exists>l s m. main env = (l @ [PanicEntry m], Panicked s m)"
    if "(\<exists>e. ParseDuration env (deref (updateCron_flag (Args env))) = Inl e) \<or>
     (\<exists>e. ParseDuration env (deref (resyncCron_flag (Args env))) = Inl e) \<or>
     (\<exists>e. ParseDuration env (deref (queueDelayInterval_flag (Args env))) = Inl e)"
  proof (rule main_not_started_panics)
    fix l st
    show "main env \<noteq> (l, Started st)"
      using st [of l st] that by auto
  qed
  have b: "ParseDuration env (deref (updateCron_flag (Args env))) = Inl e
    \<longrightarrow> main_controller env k v z =
          ([PanicEntry (''Update Cron interval input is invalid. Error: '' @ e)],
           Panicked UpdateCronInvalid (''Update Cron interval input is invalid. Error: '' @ e))"
    by (simp add: main_controller_def Let_def)
  have c: "ParseDuration env (deref (updateCron_flag (Args env))) = Inr up \<and>
    ParseDuration env (deref (resyncCron_flag (Args env))) = Inl e
    \<longrightarrow> main_controller env k v z =
          ([PanicEntry (''Full Resync Cron interval input is invalid. Error: '' @ e)],
           Panicked ResyncCronInvalid
             (''Full Resync Cron interval input is invalid. Error: '' @ e))"
    by (simp add: main_controller_def Let_def)
  have d: "ParseDuration env (deref (updateCron_flag (Args env))) = Inr up \<and>
    ParseDuration env (deref (resyncCron_flag (Args env))) = Inr rp \<and>
    ParseDuration env (deref (queueDelayInterval_flag (Args env))) = Inl e
    \<longrightarrow> main_controller env k v z =
          ([PanicEntry (''Queue delay input is invalid. Error: '' @ e)],
           Panicked QueueDelayInvalid (''Queue delay input is invalid. Error: '' @ e))"
    by (simp add: main_controller_def Let_def)
  have e: "ParseDuration env (deref (updateCron_flag (Args env))) = Inr up \<and>
    ParseDuration env (deref (resyncCron_flag (Args env))) = Inr rp \<and>
    ParseDuration env (deref (queueDelayInterval_flag (Args env))) = Inr di
    \<longrightarrow> (\<exists>st. main_controller env k v z = ([], Started st) \<and>
              controller st =
                NewController k v z up rp di
                  (NewUtil (deref (adminDomain_flag (Args env)))
                     (processList (deref (systemNamespaces_flag (Args env))))))"
    by (simp add: main_controller_def Let_def)
  from a b c d e st show ?thesis by blast
qed

theorem duration_flags_witness:
  "ParseDuration bad_update_env (deref (updateCron_flag (Args bad_update_env)))
     = Inl ''time: invalid duration soon'' \<and>
   (\<exists>l s m. main bad_update_env = (l @ [PanicEntry m], Panicked s m)) \<and>
   main_controller bad_update_env 1 2 demo_zms =
     ([PanicEntry ''Update Cron interval input is invalid. Error: time: invalid duration soon''],
      Panicked UpdateCronInvalid
        ''Update Cron interval input is invalid. Error: time: invalid duration soon'') \<and>
   main_controller bad_resync_env 1 2 demo_zms =
     ([PanicEntry
         ''Full Resync Cron interval input is invalid. Error: time: invalid duration 1 hour''],
      Panicked ResyncCronInvalid
        ''Full Resync Cron interval input is invalid. Error: time: invalid duration 1 hour'') \<and>
   main_controller bad_delay_env 1 2 demo_zms =
     ([PanicEntry ''Queue delay input is invalid. Error: time: invalid duration ''],
      Panicked QueueDelayInvalid ''Queue delay input is invalid. Error: time: invalid duration '')
   \<and>
   snd (main demo_env) = Started demo_started \<and>
   ParseDuration demo_env (deref (updateCron_flag (Args demo_env)))
     = Inr (ctl_updatePeriod (controller demo_started)) \<and>
   ParseDuration demo_env (deref (resyncCron_flag (Args demo_env)))
     = Inr (ctl_resyncPeriod (controller demo_started)) \<and>
   ParseDuration demo_env (deref (queueDelayInterval_flag (Args demo_env)))
     = Inr (ctl_delayInterval (controller demo_started))"
proof -
  have u: "ParseDuration bad_update_env (deref (updateCron_flag (Args bad_update_env)))
     = Inl ''time: invalid duration soon''"
    by (simp add: bad_update_env_def demo_env_def demo_args_def demo_ParseDuration_def flag_defs)
  have r: "ParseDuration bad_resync_env (deref (updateCron_flag (Args bad_resync_env)))
     = Inr 60000000000 \<and>
     ParseDuration bad_resync_env (deref (resyncCron_flag (Args bad_resync_env)))
     = Inl ''time: invalid duration 1 hour''"
    by (simp add: bad_resync_env_def demo_env_def demo_args_def demo_ParseDuration_def flag_defs)
  have q: "ParseDuration bad_delay_env (deref (updateCron_flag (Args bad_delay_env)))
     = Inr 60000000000 \<and>
     ParseDuration bad_delay_env (deref (resyncCron_flag (Args bad_delay_env)))
     = Inr 3600000000000 \<and>
     ParseDuration bad_delay_env (deref (queueDelayInterval_flag (Args bad_delay_env)))
     = Inl ''time: invalid duration ''"
    by (simp add: bad_delay_env_def demo_env_def demo_args_def demo_ParseDuration_def flag_defs)
  from duration_flags [of bad_update_env "''time: invalid duration soon''" 1 2 demo_zms] u
  have a: "(\<exists>l s m. main bad_update_env = (l @ [PanicEntry m], Panicked s m)) \<and>
    main_controller bad_update_env 1 2 demo_zms =
     ([PanicEntry ''Update Cron interval input is invalid. Error: time: invalid duration soon''],
      Panicked UpdateCronInvalid
        ''Update Cron interval input is invalid. Error: time: invalid duration soon'')"
    by simp
  from duration_flags [of bad_resync_env "''time: invalid duration 1 hour''" 1 2 demo_zms
      60000000000] r
  have b: "main_controller bad_resync_env 1 2 demo_zms =
     ([PanicEntry
         ''Full Resync Cron interval input is invalid. Error: time: invalid duration 1 hour''],
      Panicked ResyncCronInvalid
        ''Full Resync Cron interval input is invalid. Error: time: invalid duration 1 hour'')"
    by simp
  from duration_flags [of bad_delay_env "''time: invalid duration ''" 1 2 demo_zms
      60000000000 3600000000000] q
  have c: "main_controller bad_delay_env 1 2 demo_zms =
     ([PanicEntry ''Queue delay input is invalid. Error: time: invalid duration ''],
      Panicked QueueDelayInvalid ''Queue delay input is invalid. Error: time: invalid duration '')"
    by simp
  from duration_flags [of demo_env] main_demo_env
  have d: "ParseDuration demo_env (deref (updateCron_flag (Args demo_env)))
     = Inr (ctl_updatePeriod (controller demo_started)) \<and>
   ParseDuration demo_env (deref (resyncCron_flag (Args demo_env)))
     = Inr (ctl_resyncPeriod (controller demo_started)) \<and>
   ParseDuration demo_env (deref (queueDelayInterval_flag (Args demo_env)))
     = Inr (ctl_delayInterval (controller demo_started))"
    by blast
  from u a b c d main_demo_env show ?thesis by simp
qed

text \<open>
  Claim C5: a failure of \<open>BuildConfigFromFlags\<close> panics inside \<open>getClients\<close> with the
  error as message; a failure of either \<open>NewForConfig\<close> makes \<open>getClients\<close> return an
  error, on which \<open>main\<close> panics; an error from \<open>createZMSClient\<close> makes \<open>main\<close>
  panic. In each case the log ends with the message and nothing else has run.
\<close>

theorem client_failures_are_fatal:
  "(BuildConfigFromFlags env [] (kubeconfig_path env (inClusterConfig_flag (Args env))) = Inl e
    \<longrightarrow> getClients env (inClusterConfig_flag (Args env))
            = ([PanicEntry e], Panics BuildConfigFailed e) \<and>
        main env =
          ([InitLogger (deref_unparsed (logLoc_flag (Args env)))
              (deref_unparsed (logMode_flag (Args env))), PanicEntry e],
           Panicked BuildConfigFailed e)) \<and>
   (BuildConfigFromFlags env [] (kubeconfig_path env (inClusterConfig_flag (Args env))) = Inr cfg
    \<and> kubernetes_NewForConfig env cfg = Inl e
    \<longrightarrow> getClients env (inClusterConfig_flag (Args env))
            = ([], Returns (Inl (''Failed to create k8s client from config. Error: '' @ e))) \<and>
        main env =
          ([InitLogger (deref_unparsed (logLoc_flag (Args env)))
              (deref_unparsed (logMode_flag (Args env))),
            PanicEntry (''Error occurred when creating clients. Error: '' @
                        ''Failed to create k8s client from config. Error: '' @ e)],
           Panicked ClientsFailed
             (''Error occurred when creating clients. Error: '' @
              ''Failed to create k8s client from config. Error: '' @ e))) \<and>
   (BuildConfigFromFlags env [] (kubeconfig_path env (inClusterConfig_flag (Args env))) = Inr cfg
    \<and> kubernetes_NewForConfig env cfg = Inr client \<and> athenz_NewForConfig env cfg = Inl e
    \<longrightarrow> getClients env (inClusterConfig_flag (Args env))
            = ([], Returns (Inl (''Failed to create versiond client from config. Error: '' @ e)))
        \<and>
        main env =
          ([InitLogger (deref_unparsed (logLoc_flag (Args env)))
              (deref_unparsed (logMode_flag (Args env))),
            PanicEntry (''Error occurred when creating clients. Error: '' @
                        ''Failed to create versiond client from config. Error: '' @ e)],
           Panicked ClientsFailed
             (''Error occurred when creating clients. Error: '' @
              ''Failed to create versiond client from config. Error: '' @ e))) \<and>
   main_zms env k v (z, Some e) =
     ([PanicEntry (''Error occurred when creating zms client. Error: '' @ e)],
      Panicked ZMSClientFailed (''Error occurred when creating zms client. Error: '' @ e))"
  by (simp add: getClients_def main_def main_zms_def Let_def)

theorem client_failures_are_fatal_witness:
  "BuildConfigFromFlags in_cluster_env []
     (kubeconfig_path in_cluster_env (inClusterConfig_flag (Args in_cluster_env)))
     = Inl ''no cluster'' \<and>
   main in_cluster_env =
     ([InitLogger ''/var/log/k8s-athenz-syncer/k8s-athenz-syncer.log'' ''info'',
       PanicEntry ''no cluster''],
      Panicked BuildConfigFailed ''no cluster'') \<and>
   kubernetes_NewForConfig no_k8s_env 0 = Inl ''bad host'' \<and>
   main no_k8s_env =
     ([InitLogger ''/var/log/k8s-athenz-syncer/k8s-athenz-syncer.log'' ''info'',
       PanicEntry (''Error occurred when creating clients. Error: '' @
                   ''Failed to create k8s client from config. Error: bad host'')],
      Panicked ClientsFailed
        (''Error occurred when creating clients. Error: '' @
         ''Failed to create k8s client from config. Error: bad host'')) \<and>
   athenz_NewForConfig no_versiond_env 0 = Inl ''bad host'' \<and>
   main no_versiond_env =
     ([InitLogger ''/var/log/k8s-athenz-syncer/k8s-athenz-syncer.log'' ''info'',
       PanicEntry (''Error occurred when creating clients. Error: '' @
                   ''Failed to create versiond client from config. Error: bad host'')],
      Panicked ClientsFailed
        (''Error occurred when creating clients. Error: '' @
         ''Failed to create versiond client from config. Error: bad host''))"
proof -
  have a: "BuildConfigFromFlags in_cluster_env []
     (kubeconfig_path in_cluster_env (inClusterConfig_flag (Args in_cluster_env)))
     = Inl ''no cluster''"
    by (simp add: in_cluster_env_def demo_env_def demo_args_def kubeconfig_path_def flag_defs)
  have b: "BuildConfigFromFlags no_k8s_env []
     (kubeconfig_path no_k8s_env (inClusterConfig_flag (Args no_k8s_env))) = Inr 0 \<and>
     kubernetes_NewForConfig no_k8s_env 0 = Inl ''bad host''"
    by (simp add: no_k8s_env_def demo_env_def demo_args_def kubeconfig_path_def
        kubeconfig_flag_def homeDir_def flag_defs)
  have c: "BuildConfigFromFlags no_versiond_env []
     (kubeconfig_path no_versiond_env (inClusterConfig_flag (Args no_versiond_env))) = Inr 0 \<and>
     kubernetes_NewForConfig no_versiond_env 0 = Inr 1 \<and>
     athenz_NewForConfig no_versiond_env 0 = Inl ''bad host''"
    by (simp add: no_versiond_env_def demo_env_def demo_args_def kubeconfig_path_def
        kubeconfig_flag_def homeDir_def flag_defs)
  from client_failures_are_fatal [of in_cluster_env "''no cluster''"] a
  have a': "main in_cluster_env =
     ([InitLogger ''/var/log/k8s-athenz-syncer/k8s-athenz-syncer.log'' ''info'',
       PanicEntry ''no cluster''],
      Panicked BuildConfigFailed ''no cluster'')"
    by (simp add: flag_defs)
  from client_failures_are_fatal [of no_k8s_env "''bad host''" 0] b
  have b': "main no_k8s_env =
     ([InitLogger ''/var/log/k8s-athenz-syncer/k8s-athenz-syncer.log'' ''info'',
       PanicEntry (''Error occurred when creating clients. Error: '' @
                   ''Failed to create k8s client from config. Error: bad host'')],
      Panicked ClientsFailed
        (''Error occurred when creating clients. Error: '' @
         ''Failed to create k8s client from config. Error: bad host''))"
    by (simp add: flag_defs)
  from client_failures_are_fatal [of no_versiond_env "''bad host''" 0 1] c
  have c': "main no_versiond_env =
     ([InitLogger ''/var/log/k8s-athenz-syncer/k8s-athenz-syncer.log'' ''info'',
       PanicEntry (''Error occurred when creating clients. Error: '' @
                   ''Failed to create versiond client from config. Error: bad host'')],
      Panicked ClientsFailed
        (''Error occurred when creating clients. Error: '' @
         ''Failed to create versiond client from config. Error: bad host''))"
    by (simp add: flag_defs)
  from a a' b b' c c' show ?thesis by simp
qed

subsection \<open>The reloader never serves an unparsed bundle\<close>

lemma parsed_bundle_load:
  "loadBundle X fs cfg = Inr c \<Longrightarrow> parsed_bundle X (Some c)"
  by (auto simp: loadBundle_def parsed_bundle_def split: option.splits)

lemma reload_step_inv: "reload_inv X s \<Longrightarrow> reload_inv X (reload_step X e s)"
  by (cases e)
     (auto simp: reload_inv_def split: reload_pc.splits sum.splits dest: parsed_bundle_load)

lemma reload_run_inv: "reload_inv X s \<Longrightarrow> reload_inv X (reload_run X evs s)"
  by (induction evs arbitrary: s) (simp_all add: reload_step_inv)

lemma reload_init_inv:
  "r_NewCertReloader X fs cfg = Inr r \<Longrightarrow> reload_inv X (reload_init fs r)"
  by (auto simp: r_NewCertReloader_def reload_init_def reload_inv_def
      split: sum.splits dest: parsed_bundle_load)

text \<open>
  Claim C1: once \<open>NewCertReloader\<close> has returned without error, after any interleaving
  of file writes, loads and swaps of the reload goroutine (a read may fall between a
  load of malformed files and the swap), \<open>GetLatestCertificate\<close> returns a bundle the
  parser produced; a reload whose parse failed leaves the bundle as it was.
\<close>

theorem reloader_bundle_always_parsed:
  assumes "r_NewCertReloader X fs cfg = Inr r"
  shows "parsed_bundle X
           (GetLatestCertificate (reloader_obj (reload_run X evs (reload_init fs r)))) \<and>
         (\<forall>s err. reload_at s = Loaded (Inl err) \<longrightarrow>
            GetLatestCertificate (reloader_obj (reload_step X ReloadSwap s))
              = GetLatestCertificate (reloader_obj s)) \<and>
         (\<forall>s err. reload_at s = Sleeping \<and>
                  loadBundle X (fsys s) (reload_config (reloader_obj s)) = Inl err \<longrightarrow>
            GetLatestCertificate (reloader_obj (reload_run X [ReloadLoad, ReloadSwap] s))
              = GetLatestCertificate (reloader_obj s))"
proof -
  from reload_run_inv [OF reload_init_inv [OF assms]]
  have "parsed_bundle X
           (GetLatestCertificate (reloader_obj (reload_run X evs (reload_init fs r))))"
    by (simp add: reload_inv_def GetLatestCertificate_def)
  then show ?thesis by simp
qed

theorem reloader_bundle_always_parsed_witness:
  "r_NewCertReloader demo_X509KeyPair demo_files demo_cfg = Inr demo_reloader \<and>
   reload_at (reload_run demo_X509KeyPair demo_reload_events
      (reload_init demo_files demo_reloader))
     = Loaded (Inl ''tls: failed to find any PEM data in certificate input'') \<and>
   parsed_bundle demo_X509KeyPair
     (GetLatestCertificate (reloader_obj (reload_run demo_X509KeyPair demo_reload_events
        (reload_init demo_files demo_reloader)))) \<and>
   GetLatestCertificate (reloader_obj (reload_run demo_X509KeyPair demo_reload_events
        (reload_init demo_files demo_reloader)))
     = Some (Certificate [''der''] ''key'') \<and>
   GetLatestCertificate (reloader_obj (reload_step demo_X509KeyPair ReloadSwap
     (reload_run demo_X509KeyPair demo_reload_events (reload_init demo_files demo_reloader))))
     = Some (Certificate [''der''] ''key'')"
proof -
  have h: "r_NewCertReloader demo_X509KeyPair demo_files demo_cfg = Inr demo_reloader"
    by (simp add: r_NewCertReloader_def loadBundle_def demo_X509KeyPair_def demo_files_def
        demo_cfg_def demo_reloader_def)
  have pc: "reload_at (reload_run demo_X509KeyPair demo_reload_events
      (reload_init demo_files demo_reloader))
     = Loaded (Inl ''tls: failed to find any PEM data in certificate input'')"
    by (simp add: demo_reload_events_def reload_init_def loadBundle_def demo_X509KeyPair_def
        demo_files_def demo_cfg_def demo_reloader_def)
  have cur: "GetLatestCertificate (reloader_obj (reload_run demo_X509KeyPair demo_reload_events
        (reload_init demo_files demo_reloader)))
     = Some (Certificate [''der''] ''key'')"
    by (simp add: demo_reload_events_def reload_init_def loadBundle_def demo_X509KeyPair_def
        demo_files_def demo_cfg_def GetLatestCertificate_def demo_reloader_def)
  note t = reloader_bundle_always_parsed [OF h, of demo_reload_events]
  from t have a: "parsed_bundle demo_X509KeyPair
     (GetLatestCertificate (reloader_obj (reload_run demo_X509KeyPair demo_reload_events
        (reload_init demo_files demo_reloader))))"
    by blast
  from t pc have "GetLatestCertificate (reloader_obj (reload_step demo_X509KeyPair ReloadSwap
     (reload_run demo_X509KeyPair demo_reload_events (reload_init demo_files demo_reloader))))
     = GetLatestCertificate (reloader_obj (reload_run demo_X509KeyPair demo_reload_events
        (reload_init demo_files demo_reloader)))"
    by blast
  with cur h pc a show ?thesis by simp
qed

subsection \<open>Shutdown on a signal\<close>

lemma step_wiring:
  "deferred (step e p) = deferred p \<and> notified (step e p) = notified p \<and>
   worker_stop (step e p) = worker_stop p"
  by (cases e) (auto split: list.splits)

lemma run_wiring:
  "deferred (run evs p) = deferred p \<and> notified (run evs p) = notified p \<and>
   worker_stop (run evs p) = worker_stop p"
  by (induction evs arbitrary: p) (simp_all add: step_wiring)

lemma step_blocked:
  "\<not> is_Deliver e \<Longrightarrow> sigTerm_buf p = [] \<Longrightarrow> \<not> exited p \<Longrightarrow> closed p = [] \<Longrightarrow>
   sigTerm_buf (step e p) = [] \<and> \<not> exited (step e p) \<and> closed (step e p) = []"
  by (cases e) auto

lemma run_blocked:
  "list_all (\<lambda>e. \<not> is_Deliver e) evs \<Longrightarrow> sigTerm_buf p = [] \<Longrightarrow> \<not> exited p \<Longrightarrow>
   closed p = [] \<Longrightarrow>
   sigTerm_buf (run evs p) = [] \<and> \<not> exited (run evs p) \<and> closed (run evs p) = []"
proof (induction evs arbitrary: p)
  case Nil
  then show ?case by simp
next
  case (Cons e es)
  from Cons.prems have "\<not> is_Deliver e" and es: "list_all (\<lambda>e. \<not> is_Deliver e) es" by simp_all
  from step_blocked [OF this(1) Cons.prems(2,3,4)] Cons.IH [OF es, of "step e p"]
  show ?case by simp
qed

lemma signal_then_main_exits:
  assumes "\<not> exited p" and "notified p = [(SigTerm, SIGTERM), (SigTerm, SIGINT)]"
    and "deferred p = [StopCh]"
  shows "exited (step MainRecv (step (Deliver sg) p)) \<and>
         StopCh \<in> set (closed (step MainRecv (step (Deliver sg) p))) \<and>
         inflight (step MainRecv (step (Deliver sg) p)) = inflight p"
  using assms by (cases sg; cases "sigTerm_buf p") auto

text \<open>
  Claim C6: the process runs until SIGINT or SIGTERM, then closes the shared stop channel
  and exits after in-flight work settles. The comments of lines 165 and 171 announce a
  graceful shutdown, but \<open>main\<close> returns right after the receive and nothing waits for
  the controller goroutine. On the process \<open>main\<close> starts: a worker takes up a unit of
  work, SIGTERM arrives, the main goroutine receives it, and the program has exited with
  that unit still in flight.
\<close>

theorem exit_leaves_work_in_flight:
  "map_option (exits_settled \<circ> run [WorkerStart, Deliver SIGTERM, MainRecv]) (main_proc demo_env)
     = Some False"
  by (simp add: main_proc_def main_demo_env demo_started_def boot_def exits_settled_def)

text \<open>
  What the shutdown path does achieve: the process \<open>main\<close> starts stays blocked, with
  the stop channel open, as long as no SIGINT or SIGTERM is delivered; while it has not
  exited, a delivered SIGINT or SIGTERM followed by a step of the main goroutine closes
  the stop channel (the one given to \<open>controller.Run\<close> and to \<open>NewCertReloader\<close>) and
  the program exits, the count of units in flight being what it was before that step.
\<close>

theorem shutdown_on_signal:
  assumes "main_proc env = Some p0"
  shows "(list_all (\<lambda>e. \<not> is_Deliver e) evs \<longrightarrow>
            \<not> exited (run evs p0) \<and> closed (run evs p0) = []) \<and>
         (\<not> exited (run evs p0) \<longrightarrow>
            exited (step MainRecv (step (Deliver sg) (run evs p0))) \<and>
            StopCh \<in> set (closed (step MainRecv (step (Deliver sg) (run evs p0)))) \<and>
            inflight (step MainRecv (step (Deliver sg) (run evs p0))) = inflight (run evs p0)) \<and>
         worker_stop p0 = StopCh \<and>
         (\<exists>r. NewCertReloader env
                \<lparr>KeyFile = deref (key_flag (Args env)), CertFile = deref (cert_flag (Args env))\<rparr>
                StopCh = Inr r)"
proof -
  from assms obtain st where st: "started_of (snd (main env)) = Some st" and p0: "p0 = boot st"
    by (auto simp: main_proc_def)
  note w = main_started_wiring [OF st]
  from p0 w have init: "sigTerm_buf p0 = []" "\<not> exited p0" "closed p0 = []"
    "notified p0 = [(SigTerm, SIGTERM), (SigTerm, SIGINT)]" "deferred p0 = [StopCh]"
    "worker_stop p0 = StopCh"
    by (simp_all add: boot_def)
  have a: "list_all (\<lambda>e. \<not> is_Deliver e) evs \<longrightarrow>
            \<not> exited (run evs p0) \<and> closed (run evs p0) = []"
    using run_blocked [of evs p0] init by simp
  have b: "\<not> exited (run evs p0) \<longrightarrow>
            exited (step MainRecv (step (Deliver sg) (run evs p0))) \<and>
            StopCh \<in> set (closed (step MainRecv (step (Deliver sg) (run evs p0)))) \<and>
            inflight (step MainRecv (step (Deliver sg) (run evs p0))) = inflight (run evs p0)"
    using signal_then_main_exits [of "run evs p0" sg] run_wiring [of evs p0] init by simp
  from st have "main env = (fst (main env), Started st)"
    by (simp add: started_of_Some prod_eq_iff)
  from main_started [OF this] have c: "\<exists>r. NewCertReloader env
                \<lparr>KeyFile = deref (key_flag (Args env)), CertFile = deref (cert_flag (Args env))\<rparr>
                StopCh = Inr r" by blast
  from a b c init(6) show ?thesis by blast
qed

theorem shutdown_on_signal_witness:
  "main_proc demo_env = Some (boot demo_started) \<and>
   exited (run [WorkerStart, MainRecv, WorkerFinish, WorkerStart] (boot demo_started)) = False \<and>
   closed (run [WorkerStart, MainRecv, WorkerFinish, WorkerStart] (boot demo_started)) = [] \<and>
   exited (step MainRecv (step (Deliver SIGINT)
     (run [WorkerStart, MainRecv, WorkerFinish, WorkerStart] (boot demo_started)))) = True \<and>
   closed (step MainRecv (step (Deliver SIGINT)
     (run [WorkerStart, MainRecv, WorkerFinish, WorkerStart] (boot demo_started)))) = [StopCh] \<and>
   inflight (step MainRecv (step (Deliver SIGINT)
     (run [WorkerStart, MainRecv, WorkerFinish, WorkerStart] (boot demo_started)))) = 1"
proof -
  have h: "main_proc demo_env = Some (boot demo_started)"
    by (simp add: main_proc_def main_demo_env)
  have l: "list_all (\<lambda>e. \<not> is_Deliver e) [WorkerStart, MainRecv, WorkerFinish, WorkerStart]"
    by simp
  from shutdown_on_signal [OF h, of "[WorkerStart, MainRecv, WorkerFinish, WorkerStart]" SIGINT] l
  have a: "exited (run [WorkerStart, MainRecv, WorkerFinish, WorkerStart] (boot demo_started))
             = False \<and>
    closed (run [WorkerStart, MainRecv, WorkerFinish, WorkerStart] (boot demo_started)) = [] \<and>
    exited (step MainRecv (step (Deliver SIGINT)
     (run [WorkerStart, MainRecv, WorkerFinish, WorkerStart] (boot demo_started)))) = True"
    by blast
  have b: "closed (step MainRecv (step (Deliver SIGINT)
     (run [WorkerStart, MainRecv, WorkerFinish, WorkerStart] (boot demo_started)))) = [StopCh] \<and>
   inflight (step MainRecv (step (Deliver SIGINT)
     (run [WorkerStart, MainRecv, WorkerFinish, WorkerStart] (boot demo_started)))) = 1"
    by (simp add: boot_def demo_started_def)
  from h a b show ?thesis by blast
qed

end
